theory Spec2Isabelle
  imports Complex_Main "HOL-Library.Log_Nat"
begin

section \<open>The appointments page: data\<close>

text \<open>
  The page \<^verbatim>\<open>src/react-app/pages/Appointments - Copia.tsx\<close> keeps a list of stored
  appointments, a form for a new or edited appointment, and three handlers that matter
  here: the effect that recomputes price and end date when the selected service or the
  start changes (lines 103-114), \<^verbatim>\<open>handleOpenModal\<close> (151-174) and \<^verbatim>\<open>onSubmit\<close>
  (182-228).

  Dates travel as strings and are read only through \<^verbatim>\<open>moment(...)\<close>. A string is
  modelled by what moment makes of it: the empty string (the form's default, falsy in
  JavaScript), a non-empty string moment cannot parse, or a string that moment reads
  as an instant, given in milliseconds on the axis of \<^verbatim>\<open>valueOf()\<close>.
\<close>

datatype date_string = Blank | Malformed | DateTime int

datatype Moment = Invalid | Valid int

text \<open>\<^verbatim>\<open>moment(s)\<close> for a string \<open>s\<close>.\<close>

fun moment :: "date_string \<Rightarrow> Moment" where
  "moment Blank = Invalid"
| "moment Malformed = Invalid"
| "moment (DateTime t) = Valid t"

text \<open>
  \<^verbatim>\<open>a.isBefore(b)\<close> and \<^verbatim>\<open>a.isAfter(b)\<close> compare the two instants and are false as soon
  as one side is invalid.
\<close>

fun isBefore :: "Moment \<Rightarrow> Moment \<Rightarrow> bool" where
  "isBefore (Valid a) (Valid b) = (a < b)"
| "isBefore _ _ = False"

fun isAfter :: "Moment \<Rightarrow> Moment \<Rightarrow> bool" where
  "isAfter (Valid a) (Valid b) = (a > b)"
| "isAfter _ _ = False"

text \<open>\<^verbatim>\<open>m.add(n, 'minutes')\<close>: minutes are added on the millisecond axis.\<close>

fun add_minutes :: "Moment \<Rightarrow> int \<Rightarrow> Moment" where
  "add_minutes (Valid t) n = Valid (t + n * 60000)"
| "add_minutes Invalid n = Invalid"

subsection \<open>The local clock\<close>

text \<open>
  The strings the page prints carry a local wall-clock time and no offset, and moment
  reads them back in the browser's zone. A zone is an offset from UTC in milliseconds
  and a list of transitions in ascending order, each an instant and the offset in
  force from that instant on. A wall-clock time is given in milliseconds as well, read
  as if it were UTC.
\<close>

record zone =
  base_offset :: int
  transitions :: "(int \<times> int) list"

fun offset_from :: "int \<Rightarrow> (int \<times> int) list \<Rightarrow> int \<Rightarrow> int" where
  "offset_from off [] u = off"
| "offset_from off ((t, off') # ts) u = (if u < t then off else offset_from off' ts u)"

definition offset_at :: "zone \<Rightarrow> int \<Rightarrow> int" where
  "offset_at z u = offset_from (base_offset z) (transitions z) u"

text \<open>What the local clock shows at the instant \<open>u\<close>.\<close>

definition wall_clock :: "zone \<Rightarrow> int \<Rightarrow> int" where
  "wall_clock z u = u + offset_at z u"

text \<open>
  The instant JavaScript takes for the wall-clock time \<open>w\<close>: the earliest instant at
  which the clock shows \<open>w\<close>, so a time that the clock shows twice, after it has been
  set back, is read with the offset before the transition; a time that the clock
  skips is read with the offset before the transition too.
\<close>

fun instant_from :: "int \<Rightarrow> (int \<times> int) list \<Rightarrow> int \<Rightarrow> int" where
  "instant_from off [] w = w - off"
| "instant_from off ((t, off') # ts) w =
     (if w - off < t then w - off
      else if w - off' < t then w - off
      else instant_from off' ts w)"

definition instant_of :: "zone \<Rightarrow> int \<Rightarrow> int" where
  "instant_of z w = instant_from (base_offset z) (transitions z) w"

text \<open>
  The wall-clock times of 0000-01-01T00:00 and of 10000-01-01T00:00. Outside these
  bounds \<open>YYYY\<close> prints a sign or a fifth digit, and moment's pattern for such strings
  asks for exactly four digits.
\<close>

definition year_0000 :: int where
  "year_0000 = - 62167219200000"

definition year_10000 :: int where
  "year_10000 = 253402300800000"

text \<open>
  \<^verbatim>\<open>m.format('YYYY-MM-DDTHH:mm')\<close>: the string shows the local clock from year to
  minute and drops seconds and milliseconds. It is modelled, as every string is, by
  what moment makes of it when it reads it back. An invalid moment prints as
  \<^verbatim>\<open>'Invalid date'\<close>, a non-empty string that does not parse.
\<close>

fun format_YYYY_MM_DDTHH_mm :: "zone \<Rightarrow> Moment \<Rightarrow> date_string" where
  "format_YYYY_MM_DDTHH_mm z (Valid t) =
     (let w = wall_clock z t in
      if year_0000 \<le> w \<and> w < year_10000
      then DateTime (instant_of z (w - w mod 60000))
      else Malformed)"
| "format_YYYY_MM_DDTHH_mm z Invalid = Malformed"


text \<open>JavaScript truthiness of a string and of a possibly undefined number.\<close>

fun truthy_string :: "date_string \<Rightarrow> bool" where
  "truthy_string Blank = False"
| "truthy_string _ = True"

fun truthy_number :: "int option \<Rightarrow> bool" where
  "truthy_number None = False"
| "truthy_number (Some n) = (n \<noteq> 0)"

subsection \<open>Numbers\<close>

text \<open>
  A JavaScript number is a double. Identifiers, durations and instants are integers
  below \<open>2^53\<close>, which doubles hold and add exactly; they are modelled as \<open>int\<close>. The
  page divides a price by 100 and multiplies one by 100, and there the result is the
  double nearest to the exact quotient or product, a tie going to the even significand.

  \<open>exponent x\<close> is the \<open>e\<close> with \<open>2^e \<le> |x| < 2^(e+1)\<close>; a double has 53 significant
  bits, so around \<open>x\<close> doubles are \<open>ulp x\<close> apart, the exponent not going below -1022
  (subnormal numbers). Results beyond the largest double (\<^verbatim>\<open>Infinity\<close>) are not
  modelled.
\<close>

definition round_half_even :: "real \<Rightarrow> int" where
  "round_half_even r =
     (let f = \<lfloor>r\<rfloor> in
      if r - of_int f < 1 / 2 then f
      else if 1 / 2 < r - of_int f then f + 1
      else if even f then f else f + 1)"

definition exponent :: "real \<Rightarrow> int" where
  "exponent x =
     (if 1 \<le> \<bar>x\<bar> then bitlen \<lfloor>\<bar>x\<bar>\<rfloor> - 1 else - bitlen (\<lceil>1 / \<bar>x\<bar>\<rceil> - 1))"

definition ulp :: "real \<Rightarrow> real" where
  "ulp x = power_int 2 (max (exponent x) (- 1022) - 52)"

definition nearest_double :: "real \<Rightarrow> real" where
  "nearest_double x =
     (if x = 0 then 0 else of_int (round_half_even (x / ulp x)) * ulp x)"

text \<open>
  \<^verbatim>\<open>Math.round(x)\<close>: the integer nearest to \<open>x\<close>, a tie going up; no rounding error is
  involved.
\<close>

definition Math_round :: "real \<Rightarrow> int" where
  "Math_round x = \<lfloor>x + 1 / 2\<rfloor>"

subsection \<open>Records of the store\<close>

text \<open>
  The types come from \<^verbatim>\<open>shared/types\<close>, which is not part of this file; the fields
  are the ones the page reads and writes. An appointment's \<^verbatim>\<open>id\<close> is optional
  (\<^verbatim>\<open>appointmentToDelete.id!\<close>, line 238). Prices are integers in minor units.
\<close>

record ClientType =
  id :: int
  name :: string

record ProfessionalType =
  id :: int
  name :: string

record ServiceType =
  id :: int
  name :: string
  price :: int
  duration :: int

text \<open>
  \<^verbatim>\<open>AppointmentFormData\<close> (lines 26-34), the form's live values
  (\<^verbatim>\<open>Partial<AppointmentFormData>\<close>, lines 36-44) and the stored appointment share
  their field names and differ in the types: an identifier is a number, or a number
  that may be undefined; a price is a decimal amount in the form and an integer in
  the store; \<^verbatim>\<open>attended\<close> is optional in the form.
\<close>

record ('i, 'p, 'a) appointment_fields =
  client_id :: 'i
  professional_id :: 'i
  service_id :: 'i
  price :: 'p
  appointment_date :: date_string
  end_date :: date_string
  attended :: 'a

type_synonym AppointmentFormData = "(int, real, bool option) appointment_fields"

type_synonym FormValues = "(int option, real option, bool option) appointment_fields"

record AppointmentType = "(int, int, bool) appointment_fields" +
  id :: "int option"
  client_name :: string
  professional :: string
  service :: string

definition defaultFormValues :: FormValues where
  "defaultFormValues =
     \<lparr>client_id = None, professional_id = None, service_id = None, price = None,
      appointment_date = Blank, end_date = Blank, attended = Some False\<rparr>"

subsection \<open>The state of the page\<close>

text \<open>
  Toasts are identified by their title: \<^verbatim>\<open>"Conflito de Horario"\<close>,
  \<^verbatim>\<open>"Dados invalidos."\<close>, \<^verbatim>\<open>"Nao foi possivel salvar"\<close>,
  \<^verbatim>\<open>"Agendamento atualizado!"\<close> and \<^verbatim>\<open>"Agendamento criado!"\<close> (accents left out here).
\<close>

datatype toast_title =
  ConflitoDeHorario | DadosInvalidos | NaoFoiPossivelSalvar
| AgendamentoAtualizado | AgendamentoCriado

datatype toast = ShowError toast_title | ShowSuccess toast_title

text \<open>
  The store's \<^verbatim>\<open>addAppointment\<close> and \<^verbatim>\<open>updateAppointment\<close> live outside this file; a
  call is recorded with its arguments. Next to the component's state the page carries
  the zone of the browser it runs in.
\<close>

datatype store_call =
  AddAppointment AppointmentType string
| UpdateAppointment AppointmentType

record page =
  timeZone :: zone
  user :: "string option"
  appointments :: "AppointmentType list"
  clients :: "ClientType list"
  professionals :: "ProfessionalType list"
  services :: "ServiceType list"
  selectedDate :: "int option"
  selectedProfessionalId :: "int option"
  isModalOpen :: bool
  editingAppointment :: "AppointmentType option"
  form :: FormValues
  toasts :: "toast list"
  store_calls :: "store_call list"

definition showError :: "toast_title \<Rightarrow> page \<Rightarrow> page" where
  "showError t p = p\<lparr>toasts := toasts p @ [ShowError t]\<rparr>"

definition showSuccess :: "toast_title \<Rightarrow> page \<Rightarrow> page" where
  "showSuccess t p = p\<lparr>toasts := toasts p @ [ShowSuccess t]\<rparr>"

section \<open>Deriving the end date (lines 103-114)\<close>

text \<open>
  Line 109, the constant \<^verbatim>\<open>newEndDate\<close>: the operation the specification calls
  \<^verbatim>\<open>derive_end_time(start, service)\<close>.
\<close>

definition derive_end_time :: "zone \<Rightarrow> date_string \<Rightarrow> ServiceType \<Rightarrow> date_string" where
  "derive_end_time z watchedStartDate selectedService =
     format_YYYY_MM_DDTHH_mm z
       (add_minutes (moment watchedStartDate) (duration selectedService))"

text \<open>
  The body of the effect. React runs it after a render in which the watched service,
  the watched start or the list of services has changed.
\<close>

definition serviceEffect :: "page \<Rightarrow> page" where
  "serviceEffect p =
     (let watchedServiceId = service_id (form p);
          watchedStartDate = appointment_date (form p)
      in if truthy_number watchedServiceId \<and> length (services p) > 0 then
           (case find (\<lambda>s. Some (ServiceType.id s) = watchedServiceId) (services p) of
              None \<Rightarrow> p
            | Some selectedService \<Rightarrow>
                (let p1 = p\<lparr>form := (form p)
                            \<lparr>price := Some (nearest_double
                                (real_of_int (ServiceType.price selectedService) / 100))\<rparr>\<rparr>
                 in if truthy_string watchedStartDate then
                      p1\<lparr>form := (form p1)
                            \<lparr>end_date := derive_end_time (timeZone p) watchedStartDate
                                            selectedService\<rparr>\<rparr>
                    else p1))
         else p)"

section \<open>Opening and closing the form (lines 151-180)\<close>

text \<open>
  \<^verbatim>\<open>handleOpenModal(appointment?, slotDate?)\<close>; \<open>now\<close> is the value of \<^verbatim>\<open>new Date()\<close>.
  The calendar of this page selects a single day, so \<^verbatim>\<open>currentDate\<close> is
  \<^verbatim>\<open>selectedDate\<close>.
\<close>

definition handleOpenModal ::
  "AppointmentType option \<Rightarrow> int option \<Rightarrow> int \<Rightarrow> page \<Rightarrow> page" where
  "handleOpenModal appointment slotDate now p =
     (case appointment of
        Some a \<Rightarrow>
          p\<lparr>editingAppointment := Some a,
            form := \<lparr>client_id = Some (client_id a),
                     professional_id = Some (professional_id a),
                     service_id = Some (service_id a),
                     price = Some (nearest_double (real_of_int (price a) / 100)),
                     appointment_date =
                       format_YYYY_MM_DDTHH_mm (timeZone p) (moment (appointment_date a)),
                     end_date =
                       format_YYYY_MM_DDTHH_mm (timeZone p) (moment (end_date a)),
                     attended = Some (attended a)\<rparr>,
            isModalOpen := True\<rparr>
      | None \<Rightarrow>
          (let initialDate =
                 (case slotDate of Some d \<Rightarrow> d
                  | None \<Rightarrow> (case selectedDate p of Some d \<Rightarrow> d | None \<Rightarrow> now))
           in p\<lparr>editingAppointment := None,
                form := defaultFormValues
                  \<lparr>appointment_date :=
                     format_YYYY_MM_DDTHH_mm (timeZone p) (Valid initialDate),
                   end_date :=
                     format_YYYY_MM_DDTHH_mm (timeZone p) (add_minutes (Valid initialDate) 30),
                   professional_id := selectedProfessionalId p\<rparr>,
                isModalOpen := True\<rparr>))"

definition handleCloseModal :: "page \<Rightarrow> page" where
  "handleCloseModal p =
     p\<lparr>isModalOpen := False, editingAppointment := None, form := defaultFormValues\<rparr>"

section \<open>Submitting (lines 182-228)\<close>

text \<open>
  The callback of \<^verbatim>\<open>appointments.find\<close> (lines 187-193): the appointment being edited
  is skipped, then another professional's appointment, and what is left is compared
  by the two strict tests of line 192. \<open>isEdited\<close> is the condition of line 188,
  \<^verbatim>\<open>editingAppointment && app.id === editingAppointment.id\<close>.
\<close>

definition isEdited :: "AppointmentType option \<Rightarrow> AppointmentType \<Rightarrow> bool" where
  "isEdited editing app =
     (case editing of None \<Rightarrow> False
      | Some e \<Rightarrow> AppointmentType.id app = AppointmentType.id e)"

definition conflictTest ::
  "AppointmentType option \<Rightarrow> int \<Rightarrow> Moment \<Rightarrow> Moment \<Rightarrow> AppointmentType \<Rightarrow> bool" where
  "conflictTest editing professionalId newStart newEnd app =
     (if isEdited editing app then False
      else if professional_id app \<noteq> professionalId then False
      else (let existingStart = moment (appointment_date app);
                existingEnd = moment (end_date app)
            in isBefore newStart existingEnd \<and> isAfter newEnd existingStart))"

text \<open>
  Lines 184-193: \<^verbatim>\<open>Array.prototype.find\<close> returns the first element the callback
  accepts, or \<^verbatim>\<open>undefined\<close>.
\<close>

definition conflictingAppointment ::
  "AppointmentType option \<Rightarrow> AppointmentType list \<Rightarrow> AppointmentFormData
     \<Rightarrow> AppointmentType option" where
  "conflictingAppointment editing apps data =
     (let newStart = moment (appointment_date data);
          newEnd = moment (end_date data);
          professionalId = professional_id data
      in find (conflictTest editing professionalId newStart newEnd) apps)"

text \<open>
  Line 194, the test \<^verbatim>\<open>if (conflictingAppointment)\<close>: the specification's
  \<^verbatim>\<open>has_conflict(candidate, existing_appointments, exclude_id?)\<close>, the excluded id
  being that of the appointment under edit.
\<close>

definition has_conflict ::
  "AppointmentType option \<Rightarrow> AppointmentType list \<Rightarrow> AppointmentFormData \<Rightarrow> bool" where
  "has_conflict editing apps data = (conflictingAppointment editing apps data \<noteq> None)"

text \<open>Lines 205-215, the object \<^verbatim>\<open>appointmentData\<close>; it carries no \<^verbatim>\<open>id\<close>.\<close>

definition appointmentData ::
  "AppointmentFormData \<Rightarrow> ClientType \<Rightarrow> ProfessionalType \<Rightarrow> ServiceType
     \<Rightarrow> AppointmentType" where
  "appointmentData data client professional' service' =
     \<lparr>client_id = client_id data,
      professional_id = professional_id data,
      service_id = service_id data,
      price = Math_round (nearest_double (price data * 100)),
      appointment_date = appointment_date data,
      end_date = end_date data,
      attended = (case attended data of Some b \<Rightarrow> b | None \<Rightarrow> False),
      AppointmentType.id = None,
      client_name = ClientType.name client,
      professional = ProfessionalType.name professional',
      service = ServiceType.name service'\<rparr>"

text \<open>
  \<^verbatim>\<open>onSubmit(data)\<close>. \<open>resolves\<close> tells whether the awaited store call resolves; when
  it rejects, the \<^verbatim>\<open>catch\<close> of line 225 shows an error. The update of line 218 spreads
  the edited appointment first and \<^verbatim>\<open>appointmentData\<close> over it, which keeps the id.
\<close>

definition onSubmit :: "bool \<Rightarrow> AppointmentFormData \<Rightarrow> page \<Rightarrow> page" where
  "onSubmit resolves data p =
     (case user p of
        None \<Rightarrow> p
      | Some uid \<Rightarrow>
          (case conflictingAppointment (editingAppointment p) (appointments p) data of
             Some c \<Rightarrow> showError ConflitoDeHorario p
           | None \<Rightarrow>
               (case (find (\<lambda>c. ClientType.id c = client_id data) (clients p),
                      find (\<lambda>r. ProfessionalType.id r = professional_id data) (professionals p),
                      find (\<lambda>s. ServiceType.id s = service_id data) (services p)) of
                  (Some client, Some professional', Some service') \<Rightarrow>
                    (case editingAppointment p of
                       Some e \<Rightarrow>
                         (let p1 = p\<lparr>store_calls := store_calls p @
                                     [UpdateAppointment
                                        ((appointmentData data client professional' service')
                                           \<lparr>AppointmentType.id := AppointmentType.id e\<rparr>)]\<rparr>
                          in if resolves
                             then handleCloseModal (showSuccess AgendamentoAtualizado p1)
                             else showError NaoFoiPossivelSalvar p1)
                     | None \<Rightarrow>
                         (let p1 = p\<lparr>store_calls := store_calls p @
                                     [AddAppointment
                                        (appointmentData data client professional' service') uid]\<rparr>
                          in if resolves
                             then handleCloseModal (showSuccess AgendamentoCriado p1)
                             else showError NaoFoiPossivelSalvar p1))
                | _ \<Rightarrow> showError DadosInvalidos p)))"

section \<open>The form's submit button and an edit without input\<close>

text \<open>
  Line 408, \<^verbatim>\<open>handleSubmit(onSubmit)\<close>: the form library hands the live values to the
  resolver of line 67 and calls \<^verbatim>\<open>onSubmit\<close> with the typed data when the resolver
  accepts them. The resolver's schema \<^verbatim>\<open>AppointmentFormSchema\<close> comes from
  \<^verbatim>\<open>shared/types\<close> and is a parameter here.
\<close>

definition handleSubmit ::
  "(FormValues \<Rightarrow> AppointmentFormData option) \<Rightarrow> bool \<Rightarrow> page \<Rightarrow> page" where
  "handleSubmit resolver resolves p =
     (case resolver (form p) of
        None \<Rightarrow> p
      | Some data \<Rightarrow> onSubmit resolves data p)"

text \<open>
  The resolver that asks only what the type \<^verbatim>\<open>AppointmentFormData\<close> asks: the four
  numbers are present.
\<close>

definition required_numbers :: "FormValues \<Rightarrow> AppointmentFormData option" where
  "required_numbers f =
     (case (client_id f, professional_id f, service_id f, price f) of
        (Some c, Some r, Some s, Some x) \<Rightarrow>
          Some \<lparr>client_id = c, professional_id = r, service_id = s, price = x,
                appointment_date = appointment_date f, end_date = end_date f,
                attended = attended f\<rparr>
      | _ \<Rightarrow> None)"

text \<open>
  The user clicks a stored appointment (line 377) and presses the submit button
  without typing anything. \<^verbatim>\<open>handleOpenModal\<close> resets the form to the appointment's
  values; the form was at its defaults before (first render, and after every
  \<^verbatim>\<open>handleCloseModal\<close>), so the watched service and start change and React runs the
  effect of lines 103-114 after the render; then the form is submitted.
\<close>

definition untouched_edit ::
  "(FormValues \<Rightarrow> AppointmentFormData option) \<Rightarrow> bool \<Rightarrow> int
     \<Rightarrow> AppointmentType \<Rightarrow> page \<Rightarrow> page" where
  "untouched_edit resolver resolves now a p =
     handleSubmit resolver resolves (serviceEffect (handleOpenModal (Some a) None now p))"

section \<open>A small salon\<close>

text \<open>
  Two zones: UTC, and Lisbon around 27 October 2024, one hour ahead of UTC until
  01:00 UTC of that day and on UTC from then on.
\<close>

definition utc :: zone where
  "utc = \<lparr>base_offset = 0, transitions = []\<rparr>"


text \<open>
  One client, one professional, one service of thirty minutes at 50.00, and one stored
  appointment from 10:00 to 10:30 (milliseconds since midnight) booked at 45.00.
\<close>

definition ana :: ClientType where
  "ana = \<lparr>ClientType.id = 1, name = ''Ana''\<rparr>"

definition bia :: ProfessionalType where
  "bia = \<lparr>ProfessionalType.id = 1, name = ''Bia''\<rparr>"

definition corte :: ServiceType where
  "corte = \<lparr>ServiceType.id = 1, name = ''Corte'', price = 5000, duration = 30\<rparr>"

definition booked :: AppointmentType where
  "booked =
     \<lparr>client_id = 1, professional_id = 1, service_id = 1, price = 4500,
      appointment_date = DateTime 36000000, end_date = DateTime 37800000,
      attended = False, AppointmentType.id = Some 7, client_name = ''Ana'',
      professional = ''Bia'', service = ''Corte''\<rparr>"

text \<open>A second stored appointment of the same professional, 10:30 to 11:00.\<close>

definition booked_next :: AppointmentType where
  "booked_next =
     \<lparr>client_id = 1, professional_id = 1, service_id = 1, price = 5000,
      appointment_date = DateTime 37800000, end_date = DateTime 39600000,
      attended = False, AppointmentType.id = Some 8, client_name = ''Ana'',
      professional = ''Bia'', service = ''Corte''\<rparr>"

text \<open>Submitted data for professional \<open>r\<close> from \<open>s\<close> to \<open>e\<close>.\<close>

definition candidate :: "int \<Rightarrow> int \<Rightarrow> int \<Rightarrow> AppointmentFormData" where
  "candidate r s e =
     \<lparr>client_id = 1, professional_id = r, service_id = 1, price = 45,
      appointment_date = DateTime s, end_date = DateTime e, attended = None\<rparr>"

definition salon :: page where
  "salon =
     \<lparr>timeZone = utc, user = Some ''u1'', appointments = [booked], clients = [ana],
      professionals = [bia], services = [corte], selectedDate = None,
      selectedProfessionalId = None, isModalOpen = False, editingAppointment = None,
      form = defaultFormValues, toasts = [], store_calls = []\<rparr>"

section \<open>Properties\<close>

subsection \<open>Auxiliary facts\<close>

text \<open>On parsed instants the callback is the conjunction of its four tests.\<close>

lemma conflictTest_instants:
  assumes "appointment_date E = DateTime es" and "end_date E = DateTime ee"
  shows "conflictTest editing pid (Valid cs) (Valid ce) E
         = (\<not> isEdited editing E \<and> professional_id E = pid \<and> cs < ee \<and> ce > es)"
  using assms by (simp add: conflictTest_def)

text \<open>A conflict is reported exactly when some stored appointment passes the callback.\<close>

lemma has_conflict_iff:
  "has_conflict editing apps C
   = (\<exists>E \<in> set apps. conflictTest editing (professional_id C)
        (moment (appointment_date C)) (moment (end_date C)) E)"
  by (auto simp add: has_conflict_def conflictingAppointment_def find_None_iff)


text \<open>In a zone without transitions a wall-clock time is read back as its instant.\<close>

lemma instant_of_fixed_zone: "transitions z = [] \<Longrightarrow> instant_of z (wall_clock z u) = u"
  by (simp add: instant_of_def wall_clock_def offset_at_def)

text \<open>When the effect finds the service and the start is set, it stores the derived end.\<close>

lemma serviceEffect_end_date:
  assumes "find (\<lambda>s. Some (ServiceType.id s) = service_id (form p)) (services p) = Some svc"
    and "truthy_number (service_id (form p))" and "truthy_string (appointment_date (form p))"
  shows "end_date (form (serviceEffect p))
         = derive_end_time (timeZone p) (appointment_date (form p)) svc"
  using assms by (auto simp add: serviceEffect_def Let_def split: option.splits)

text \<open>The callback looks at the edited appointment's id only.\<close>

lemma conflictTest_cong:
  "map_option AppointmentType.id ed = map_option AppointmentType.id ed'
   \<Longrightarrow> conflictTest ed r s t = conflictTest ed' r s t"
  by (cases ed; cases ed') (auto simp add: conflictTest_def isEdited_def fun_eq_iff)

text \<open>Neither handler writes the lists it reads.\<close>

lemma onSubmit_frame:
  "appointments (onSubmit resolves d p) = appointments p
   \<and> services (onSubmit resolves d p) = services p"
  by (simp add: onSubmit_def showError_def showSuccess_def handleCloseModal_def Let_def
      split: option.splits)

lemma serviceEffect_frame:
  "appointments (serviceEffect p) = appointments p \<and> services (serviceEffect p) = services p"
  by (simp add: serviceEffect_def Let_def split: option.splits)

text \<open>
  Double arithmetic: rounding moves a number by at most half a unit in the last place,
  that is by a factor of at most \<open>2^-53\<close> in the normal range; the exponent is the only
  \<open>e\<close> with \<open>2^e \<le> |x| < 2^(e+1)\<close>, which evaluates \<open>nearest_double\<close> at a given number;
  integers below \<open>2^53\<close> are doubles; and dividing an integer of at most \<open>2^50\<close> by 100,
  multiplying by 100 and rounding gives the integer back.
\<close>

lemma round_half_even_near: "\<bar>of_int (round_half_even r) - r\<bar> \<le> 1 / 2"
  unfolding round_half_even_def Let_def by (auto; linarith)

lemma round_half_even_of_int [simp]: "round_half_even (of_int k) = k"
  by (simp add: round_half_even_def)

lemma bitlen_pos: "0 < m \<Longrightarrow> 1 \<le> bitlen m"
  using bitlen_eq_zero_iff [of m] bitlen_nonneg [of m] by linarith

lemma exponent_lower:
  assumes "x \<noteq> 0"
  shows "power_int 2 (exponent x) \<le> \<bar>x\<bar>"
proof (cases "1 \<le> \<bar>x\<bar>")
  case True
  define n where "n = \<lfloor>\<bar>x\<bar>\<rfloor>"
  have n: "0 < n" using True by (simp add: n_def)
  have e: "exponent x = bitlen n - 1" using True by (simp add: exponent_def n_def)
  have "0 \<le> bitlen n - 1" using bitlen_pos [OF n] by simp
  then have "power_int (2::real) (exponent x) = 2 ^ nat (bitlen n - 1)"
    by (simp add: e power_int_nonneg_exp)
  also have "\<dots> = of_int (2 ^ nat (bitlen n - 1))" by simp
  also have "\<dots> \<le> of_int n" using bitlen_bounds [OF n] by (simp only: of_int_le_iff)
  also have "\<dots> \<le> \<bar>x\<bar>" by (simp add: n_def)
  finally show ?thesis .
next
  case False
  define m where "m = \<lceil>1 / \<bar>x\<bar>\<rceil> - 1"
  have y: "1 < 1 / \<bar>x\<bar>" using False assms by simp
  have m: "0 < m" using y by (simp add: m_def less_ceiling_iff)
  have e: "exponent x = - bitlen m" using False by (simp add: exponent_def m_def)
  have "1 / \<bar>x\<bar> \<le> of_int (m + 1)" by (simp add: m_def)
  also have "m + 1 \<le> 2 ^ nat (bitlen m)" using bitlen_bounds [OF m] by simp
  then have "of_int (m + 1) \<le> (of_int (2 ^ nat (bitlen m)) :: real)" by (simp only: of_int_le_iff)
  finally have "1 / \<bar>x\<bar> \<le> 2 ^ nat (bitlen m)" by simp
  then have "1 / 2 ^ nat (bitlen m) \<le> \<bar>x\<bar>"
    using assms by (simp add: field_simps)
  moreover have "power_int (2::real) (exponent x) = 1 / 2 ^ nat (bitlen m)"
    using bitlen_nonneg [of m] by (simp add: e power_int_minus_divide power_int_nonneg_exp)
  ultimately show ?thesis by simp
qed

lemma exponent_upper:
  assumes "x \<noteq> 0"
  shows "\<bar>x\<bar> < power_int 2 (exponent x + 1)"
proof (cases "1 \<le> \<bar>x\<bar>")
  case True
  define n where "n = \<lfloor>\<bar>x\<bar>\<rfloor>"
  have n: "0 < n" using True by (simp add: n_def)
  have e: "exponent x = bitlen n - 1" using True by (simp add: exponent_def n_def)
  have "\<bar>x\<bar> < of_int (n + 1)" by (simp add: n_def)
  also have "n + 1 \<le> 2 ^ nat (bitlen n)" using bitlen_bounds [OF n] by simp
  then have "of_int (n + 1) \<le> (of_int (2 ^ nat (bitlen n)) :: real)" by (simp only: of_int_le_iff)
  also have "\<dots> = power_int 2 (exponent x + 1)"
    using bitlen_nonneg [of n] by (simp add: e power_int_nonneg_exp)
  finally show ?thesis .
next
  case False
  define m where "m = \<lceil>1 / \<bar>x\<bar>\<rceil> - 1"
  have y: "1 < 1 / \<bar>x\<bar>" using False assms by simp
  have m: "0 < m" using y by (simp add: m_def less_ceiling_iff)
  have e: "exponent x = - bitlen m" using False by (simp add: exponent_def m_def)
  have k: "0 \<le> bitlen m - 1" using bitlen_pos [OF m] by simp
  have "(of_int (2 ^ nat (bitlen m - 1)) :: real) \<le> of_int m"
    using bitlen_bounds [OF m] by (simp only: of_int_le_iff)
  also have "of_int m < 1 / \<bar>x\<bar>" by (simp add: m_def) linarith
  finally have "2 ^ nat (bitlen m - 1) < 1 / \<bar>x\<bar>" by simp
  then have "\<bar>x\<bar> < 1 / 2 ^ nat (bitlen m - 1)"
    using assms by (simp add: field_simps)
  moreover have "power_int (2::real) (exponent x + 1) = 1 / 2 ^ nat (bitlen m - 1)"
  proof -
    have "exponent x + 1 = - (bitlen m - 1)" by (simp add: e)
    then show ?thesis using k by (simp only: power_int_minus_divide power_int_nonneg_exp)
  qed
  ultimately show ?thesis by simp
qed

lemma pow2_less_D: "power_int (2::real) m < power_int 2 n \<Longrightarrow> m < n"
  using power_int_increasing [of n m "2::real"] by (cases "m < n") auto

lemma exponent_unique:
  assumes "x \<noteq> 0" and "power_int 2 e \<le> \<bar>x\<bar>" and "\<bar>x\<bar> < power_int 2 (e + 1)"
  shows "exponent x = e"
proof -
  have "power_int (2::real) e < power_int 2 (exponent x + 1)"
    using assms(2) exponent_upper [OF assms(1)] by linarith
  then have "e < exponent x + 1" by (rule pow2_less_D)
  moreover have "power_int (2::real) (exponent x) < power_int 2 (e + 1)"
    using assms(3) exponent_lower [OF assms(1)] by linarith
  then have "exponent x < e + 1" by (rule pow2_less_D)
  ultimately show ?thesis by simp
qed

lemma nearest_double_eval:
  assumes "x \<noteq> 0" and "power_int 2 e \<le> \<bar>x\<bar>" and "\<bar>x\<bar> < power_int 2 (e + 1)"
    and "- 1022 \<le> e"
  shows "nearest_double x = of_int (round_half_even (x / power_int 2 (e - 52))) * power_int 2 (e - 52)"
  using assms exponent_unique [OF assms(1-3)] by (simp add: nearest_double_def ulp_def max_def)

lemma nearest_double_near:
  assumes "power_int 2 (- 1022) \<le> \<bar>x\<bar>"
  shows "\<bar>nearest_double x - x\<bar> \<le> \<bar>x\<bar> * power_int 2 (- 53)"
proof -
  have x: "x \<noteq> 0" using assms by auto
  have "power_int (2::real) (- 1022) < power_int 2 (exponent x + 1)"
    using assms exponent_upper [OF x] by linarith
  then have e: "- 1022 \<le> exponent x" using pow2_less_D by fastforce
  define u where "u = power_int (2::real) (exponent x - 52)"
  have u: "0 < u" by (simp add: u_def)
  have d: "nearest_double x = of_int (round_half_even (x / u)) * u"
    using x e by (simp add: nearest_double_def ulp_def max_def u_def)
  have "\<bar>nearest_double x - x\<bar> = \<bar>of_int (round_half_even (x / u)) - x / u\<bar> * u"
  proof -
    have "nearest_double x - x = (of_int (round_half_even (x / u)) - x / u) * u"
      using u by (simp add: d field_simps)
    then show ?thesis using u by (simp add: abs_mult)
  qed
  also have "\<dots> \<le> 1 / 2 * u"
    using round_half_even_near [of "x / u"] u by (intro mult_right_mono) auto
  also have "\<dots> = power_int 2 (exponent x) * power_int 2 (- 53)"
    by (simp add: u_def power_int_diff power_int_minus_divide)
  also have "\<dots> \<le> \<bar>x\<bar> * power_int 2 (- 53)"
    using exponent_lower [OF x] by (intro mult_right_mono) auto
  finally show ?thesis .
qed

lemma nearest_double_of_int:
  assumes "\<bar>n\<bar> < 2 ^ 53"
  shows "nearest_double (of_int n) = of_int n"
proof (cases "n = 0")
  case True
  then show ?thesis by (simp add: nearest_double_def)
next
  case False
  define x :: real where "x = of_int n"
  define e where "e = exponent x"
  have x: "x \<noteq> 0" using False by (simp add: x_def)
  have "1 \<le> \<bar>x\<bar>" using False by (simp add: x_def)
  then have "power_int (2::real) 0 < power_int 2 (e + 1)"
    using exponent_upper [OF x] by (simp add: e_def)
  then have e0: "0 \<le> e" using pow2_less_D by fastforce
  have "\<bar>x\<bar> < 2 ^ 53" using assms unfolding x_def by (metis of_int_abs of_int_less_numeral_power_cancel_iff)
  then have "power_int (2::real) e < power_int 2 53"
    using exponent_lower [OF x] by (simp add: e_def)
  then have e52: "e \<le> 52" using pow2_less_D by fastforce
  define k where "k = nat (52 - e)"
  have u: "power_int (2::real) (e - 52) = 1 / 2 ^ k"
  proof -
    have "e - 52 = - int k" using e52 by (simp add: k_def)
    then show ?thesis by (simp add: power_int_minus_divide)
  qed
  have "x / power_int 2 (e - 52) = of_int (n * 2 ^ k)"
    by (simp add: u x_def)
  then have "round_half_even (x / power_int 2 (e - 52)) = n * 2 ^ k"
    by (simp only: round_half_even_of_int)
  then have "nearest_double x = of_int (n * 2 ^ k) * (1 / 2 ^ k)"
    using x e0 by (simp add: nearest_double_def ulp_def max_def e_def [symmetric] u)
  then show ?thesis by (simp add: x_def)
qed

lemma cents_round_trip:
  assumes "\<bar>n\<bar> \<le> 2 ^ 50"
  shows "Math_round (nearest_double (nearest_double (of_int n / 100) * 100)) = n"
proof (cases "n = 0")
  case True
  then show ?thesis by (simp add: nearest_double_def Math_round_def)
next
  case False
  define p :: real where "p = of_int n"
  define eps :: real where "eps = power_int 2 (- 53)"
  define y where "y = nearest_double (p / 100)"
  define z where "z = nearest_double (y * 100)"
  have p1: "1 \<le> \<bar>p\<bar>" using False by (simp add: p_def)
  have p50: "\<bar>p\<bar> \<le> 2 ^ 50"
    using assms unfolding p_def by (metis of_int_abs of_int_le_numeral_power_cancel_iff)
  have eps: "0 < eps" "eps \<le> 1 / 2" "eps = 1 / 2 ^ 53"
    by (simp_all add: eps_def power_int_minus_divide)
  have small: "power_int (2::real) (- 1022) \<le> 1 / 200"
    by (simp add: power_int_minus_divide)
  have "power_int 2 (- 1022) \<le> \<bar>p / 100\<bar>" using p1 small by simp
  then have "\<bar>y - p / 100\<bar> \<le> \<bar>p / 100\<bar> * eps"
    unfolding y_def eps_def by (rule nearest_double_near)
  moreover have "\<bar>y * 100 - p\<bar> = \<bar>y - p / 100\<bar> * 100"
  proof -
    have "y * 100 - p = (y - p / 100) * 100" by simp
    then show ?thesis by (simp only: abs_mult)
  qed
  ultimately have y: "\<bar>y * 100 - p\<bar> \<le> \<bar>p\<bar> * eps" by simp
  have "\<bar>p\<bar> - \<bar>p\<bar> * eps \<le> \<bar>y * 100\<bar>" using y by linarith
  then have "\<bar>p\<bar> * (1 - eps) \<le> \<bar>y * 100\<bar>" by (simp add: algebra_simps)
  moreover have "1 / 2 \<le> \<bar>p\<bar> * (1 - eps)"
  proof -
    have "1 / 2 \<le> 1 * (1 - eps)" using eps(2) by simp
    also have "\<dots> \<le> \<bar>p\<bar> * (1 - eps)"
      using p1 eps(2) by (intro mult_right_mono) simp_all
    finally show ?thesis .
  qed
  ultimately have "power_int 2 (- 1022) \<le> \<bar>y * 100\<bar>" using small by linarith
  then have z: "\<bar>z - y * 100\<bar> \<le> \<bar>y * 100\<bar> * eps"
    unfolding z_def eps_def by (rule nearest_double_near)
  have "\<bar>y * 100\<bar> \<le> \<bar>p\<bar> + \<bar>p\<bar> * eps" using y by linarith
  then have "\<bar>y * 100\<bar> \<le> \<bar>p\<bar> * (1 + eps)" by (simp add: algebra_simps)
  then have "\<bar>y * 100\<bar> * eps \<le> \<bar>p\<bar> * (1 + eps) * eps"
    using eps(1) by (intro mult_right_mono) simp_all
  then have "\<bar>z - p\<bar> \<le> \<bar>p\<bar> * eps + \<bar>p\<bar> * (1 + eps) * eps" using y z by linarith
  also have "\<dots> = \<bar>p\<bar> * (eps * (2 + eps))" by (simp add: algebra_simps)
  also have "\<dots> \<le> 2 ^ 50 * (eps * (2 + eps))"
    using p50 eps(1) by (intro mult_right_mono) simp_all
  also have "\<dots> < 1 / 2" by (simp add: eps(3))
  finally have "\<bar>z - p\<bar> < 1 / 2" .
  then have "of_int n \<le> z + 1 / 2" "z + 1 / 2 < of_int n + 1"
    unfolding p_def by linarith+
  then have "\<lfloor>z + 1 / 2\<rfloor> = n" by (simp add: floor_unique)
  then show ?thesis by (simp add: Math_round_def z_def y_def p_def)
qed

subsection \<open>The overlap test\<close>



subsection \<open>The derived end\<close>




subsection \<open>Touching and disjoint intervals\<close>

text \<open>
  Claim C3. Let the candidate \<open>A\<close> run from \<open>as\<close> to \<open>ae\<close>. If every stored appointment
  \<open>B\<close> of the same professional runs from some \<open>bs\<close> to some \<open>be\<close> with \<open>ae \<le> bs\<close> or
  \<open>be \<le> as\<close>, then \<open>has_conflict\<close> is false: sharing a boundary instant is no
  conflict.
\<close>

theorem touching_or_disjoint_no_conflict:
  assumes "appointment_date A = DateTime as" and "end_date A = DateTime ae"
    and "\<forall>B \<in> set apps. professional_id B = professional_id A \<longrightarrow>
           (\<exists>bs be. appointment_date B = DateTime bs \<and> end_date B = DateTime be
              \<and> (ae \<le> bs \<or> be \<le> as))"
  shows "\<not> has_conflict editing apps A"
proof -
  have "\<not> conflictTest editing (professional_id A) (Valid as) (Valid ae) B"
    if "B \<in> set apps" for B
  proof (cases "professional_id B = professional_id A")
    case True
    with assms(3) that obtain bs be where
      "appointment_date B = DateTime bs" "end_date B = DateTime be" "ae \<le> bs \<or> be \<le> as"
      by blast
    then show ?thesis by (auto simp add: conflictTest_instants)
  next
    case False
    then show ?thesis by (simp add: conflictTest_def)
  qed
  then show ?thesis
    using assms(1,2) by (simp add: has_conflict_iff)
qed

theorem touching_or_disjoint_no_conflict_witness:
  "\<not> has_conflict None [booked, booked_next] (candidate 1 32400000 36000000)"
  using touching_or_disjoint_no_conflict [of "candidate 1 32400000 36000000" 32400000 36000000
          "[booked, booked_next]" None]
  by (simp add: booked_def booked_next_def candidate_def)

subsection \<open>Other professionals\<close>

text \<open>
  Claim C4. If every stored appointment belongs to a professional other than the
  candidate's, \<open>has_conflict\<close> is false, whatever the dates are.
\<close>

theorem other_professional_no_conflict:
  assumes "\<forall>B \<in> set apps. professional_id B \<noteq> professional_id A"
  shows "\<not> has_conflict editing apps A"
  using assms by (simp add: has_conflict_iff conflictTest_def)

theorem other_professional_no_conflict_witness:
  "\<not> has_conflict None [booked, booked_next] (candidate 2 36000000 39600000)"
  using other_professional_no_conflict [of "[booked, booked_next]"
          "candidate 2 36000000 39600000" None]
  by (simp add: booked_def booked_next_def candidate_def)

subsection \<open>Editing in place\<close>

text \<open>
  Claim C5. While the appointment \<open>e\<close> is under edit, the callback rejects every stored
  appointment carrying \<open>e\<close>'s id, for any professional and any dates; the search gives
  the same result on the list with those appointments removed; and when the only
  appointments that would conflict without the exclusion carry \<open>e\<close>'s id,
  \<open>has_conflict\<close> is false.
\<close>

theorem editing_skips_own_record:
  assumes "editing = Some e"
  shows "(AppointmentType.id B = AppointmentType.id e \<longrightarrow> \<not> conflictTest editing r s t B)
       \<and> conflictingAppointment editing apps A
           = conflictingAppointment editing
               (filter (\<lambda>B. AppointmentType.id B \<noteq> AppointmentType.id e) apps) A
       \<and> ((\<forall>B \<in> set apps. conflictTest None (professional_id A)
               (moment (appointment_date A)) (moment (end_date A)) B
               \<longrightarrow> AppointmentType.id B = AppointmentType.id e)
           \<longrightarrow> \<not> has_conflict editing apps A)"
proof -
  have skip: "\<not> conflictTest (Some e) r s t B"
    if "AppointmentType.id B = AppointmentType.id e" for r s t B
    using that by (simp add: conflictTest_def isEdited_def)
  have flt: "find (conflictTest (Some e) r s t) xs
           = find (conflictTest (Some e) r s t)
               (filter (\<lambda>B. AppointmentType.id B \<noteq> AppointmentType.id e) xs)" for r s t xs
    by (induction xs) (auto simp add: skip)
  have weak: "conflictTest (Some e) r s t B \<Longrightarrow> conflictTest None r s t B" for r s t B
    by (auto simp add: conflictTest_def isEdited_def split: if_splits)
  have own: "\<not> has_conflict (Some e) apps A"
    if "\<forall>B \<in> set apps. conflictTest None (professional_id A)
               (moment (appointment_date A)) (moment (end_date A)) B
               \<longrightarrow> AppointmentType.id B = AppointmentType.id e"
    unfolding has_conflict_iff using that skip weak by blast
  show ?thesis
    using assms skip flt own by (simp add: conflictingAppointment_def)
qed

theorem editing_skips_own_record_witness:
  "has_conflict None [booked, booked_next] (candidate 1 36900000 37800000)
   \<and> \<not> has_conflict (Some booked) [booked, booked_next] (candidate 1 36900000 37800000)"
proof -
  have "has_conflict None [booked, booked_next] (candidate 1 36900000 37800000)"
    by (simp add: has_conflict_iff conflictTest_def isEdited_def booked_def candidate_def)
  moreover have "\<forall>B \<in> set [booked, booked_next]. conflictTest None (professional_id (candidate 1 36900000 37800000))
               (moment (appointment_date (candidate 1 36900000 37800000))) (moment (end_date (candidate 1 36900000 37800000))) B
               \<longrightarrow> AppointmentType.id B = AppointmentType.id booked"
    by (simp add: conflictTest_def isEdited_def booked_def booked_next_def candidate_def)
  ultimately show ?thesis
    using editing_skips_own_record [of "Some booked" booked booked 1 Invalid Invalid
            "[booked, booked_next]" "candidate 1 36900000 37800000"]
    by blast
qed

subsection \<open>A conflict aborts the save\<close>

text \<open>
  Claim C6. When the search finds a conflicting appointment, \<open>onSubmit\<close> calls neither
  \<open>addAppointment\<close> nor \<open>updateAppointment\<close> and leaves the appointments and the form
  as they were; with a signed-in user, which is when \<open>onSubmit\<close> reaches the search,
  the page after \<open>onSubmit\<close> is the page before it plus the one error toast
  "Conflito de Horario".
\<close>

theorem conflict_aborts_save:
  assumes "has_conflict (editingAppointment p) (appointments p) data"
  shows "store_calls (onSubmit resolves data p) = store_calls p
       \<and> appointments (onSubmit resolves data p) = appointments p
       \<and> form (onSubmit resolves data p) = form p
       \<and> (user p \<noteq> None \<longrightarrow>
            onSubmit resolves data p = p\<lparr>toasts := toasts p @ [ShowError ConflitoDeHorario]\<rparr>)"
  using assms
  by (auto simp add: has_conflict_def onSubmit_def showError_def split: option.splits)

theorem conflict_aborts_save_witness:
  "has_conflict (editingAppointment salon) (appointments salon) (candidate 1 36900000 38700000)
   \<and> user salon \<noteq> None
   \<and> onSubmit True (candidate 1 36900000 38700000) salon
       = salon\<lparr>toasts := [ShowError ConflitoDeHorario]\<rparr>
   \<and> store_calls (onSubmit True (candidate 1 36900000 38700000) salon) = []"
proof -
  have h: "has_conflict (editingAppointment salon) (appointments salon)
             (candidate 1 36900000 38700000)"
    by (simp add: has_conflict_iff conflictTest_def isEdited_def salon_def booked_def
        candidate_def)
  show ?thesis
    using h conflict_aborts_save [OF h, of True] by (simp add: salon_def)
qed

subsection \<open>The first conflict in array order\<close>

text \<open>
  Claim C7. The search returns \<open>a\<close> exactly when \<open>a\<close> stands at some index \<open>i\<close> of the
  list, passes the callback, and no appointment before index \<open>i\<close> passes it; it returns
  nothing exactly when no appointment of the list passes the callback.
\<close>

theorem first_conflict_in_array_order:
  "(conflictingAppointment editing apps A = Some a
      \<longleftrightarrow> (\<exists>i < length apps. apps ! i = a
             \<and> conflictTest editing (professional_id A) (moment (appointment_date A))
                 (moment (end_date A)) a
             \<and> (\<forall>j < i. \<not> conflictTest editing (professional_id A)
                   (moment (appointment_date A)) (moment (end_date A)) (apps ! j))))
   \<and> (conflictingAppointment editing apps A = None
      \<longleftrightarrow> (\<forall>B \<in> set apps. \<not> conflictTest editing (professional_id A)
                   (moment (appointment_date A)) (moment (end_date A)) B))"
  by (simp add: conflictingAppointment_def find_Some_iff find_None_iff) blast

theorem first_conflict_in_array_order_witness:
  "conflictingAppointment None [booked, booked_next] (candidate 1 36900000 38700000)
     = Some booked
   \<and> conflictingAppointment None [booked_next, booked] (candidate 1 36900000 38700000)
     = Some booked_next
   \<and> conflictingAppointment None [booked, booked_next] (candidate 1 39600000 41400000)
     = None"
proof -
  let ?A = "candidate 1 36900000 38700000"
  let ?t = "conflictTest None (professional_id ?A) (moment (appointment_date ?A))
              (moment (end_date ?A))"
  have b: "?t booked" and n: "?t booked_next"
    by (simp_all add: conflictTest_def isEdited_def booked_def booked_next_def candidate_def)
  have "\<exists>i < length [booked, booked_next]. [booked, booked_next] ! i = booked \<and> ?t booked
          \<and> (\<forall>j < i. \<not> ?t ([booked, booked_next] ! j))"
    using b by (intro exI [of _ 0]) simp
  then have 1: "conflictingAppointment None [booked, booked_next] ?A = Some booked"
    using first_conflict_in_array_order [of None "[booked, booked_next]" ?A booked] by blast
  have "\<exists>i < length [booked_next, booked]. [booked_next, booked] ! i = booked_next
          \<and> ?t booked_next \<and> (\<forall>j < i. \<not> ?t ([booked_next, booked] ! j))"
    using n by (intro exI [of _ 0]) simp
  then have 2: "conflictingAppointment None [booked_next, booked] ?A = Some booked_next"
    using first_conflict_in_array_order [of None "[booked_next, booked]" ?A booked_next]
    by blast
  let ?L = "candidate 1 39600000 41400000"
  have "\<forall>B \<in> set [booked, booked_next]. \<not> conflictTest None (professional_id ?L)
          (moment (appointment_date ?L)) (moment (end_date ?L)) B"
    by (simp add: conflictTest_def isEdited_def booked_def booked_next_def candidate_def)
  then have 3: "conflictingAppointment None [booked, booked_next] ?L = None"
    using first_conflict_in_array_order [of None "[booked, booked_next]" ?L booked] by blast
  show ?thesis using 1 2 3 by simp
qed

subsection \<open>Results depend on the inputs only, and the inputs stay as they are\<close>

text \<open>
  Claim C8. The search gives the same result on the same list for any two submitted
  data that agree on professional, start and end, and any two edited appointments
  with the same id; the derived end is the same for the same start and any two
  services of the same duration. \<open>onSubmit\<close> and the effect leave the page's
  appointments and services unchanged.
\<close>

theorem conflict_and_end_time_read_only:
  "(professional_id d = professional_id d' \<and> appointment_date d = appointment_date d'
      \<and> end_date d = end_date d'
      \<and> map_option AppointmentType.id ed = map_option AppointmentType.id ed'
      \<longrightarrow> conflictingAppointment ed apps d = conflictingAppointment ed' apps d')
   \<and> (duration s = duration s' \<longrightarrow> derive_end_time z t s = derive_end_time z t s')
   \<and> appointments (onSubmit resolves d p) = appointments p
   \<and> services (onSubmit resolves d p) = services p
   \<and> appointments (serviceEffect p) = appointments p
   \<and> services (serviceEffect p) = services p"
  using conflictTest_cong [of ed ed'] onSubmit_frame [of resolves d p] serviceEffect_frame [of p]
  by (simp add: conflictingAppointment_def derive_end_time_def)

theorem conflict_and_end_time_read_only_witness:
  "conflictingAppointment None [booked, booked_next] (candidate 1 36900000 38700000)
     = conflictingAppointment None [booked, booked_next]
         ((candidate 1 36900000 38700000)\<lparr>client_id := 9, price := 10, attended := Some True\<rparr>)
   \<and> derive_end_time utc (DateTime 36000000) corte
     = derive_end_time utc (DateTime 36000000)
         (corte\<lparr>ServiceType.price := 0, name := ''Barba''\<rparr>)
   \<and> appointments (onSubmit True (candidate 1 36900000 38700000) salon) = [booked]
   \<and> services (serviceEffect salon) = [corte]"
  using conflict_and_end_time_read_only [of "candidate 1 36900000 38700000"
          "(candidate 1 36900000 38700000)\<lparr>client_id := 9, price := 10, attended := Some True\<rparr>"
          None None "[booked, booked_next]" corte
          "corte\<lparr>ServiceType.price := 0, name := ''Barba''\<rparr>" utc "DateTime 36000000"
          True salon]
  by (simp add: candidate_def salon_def)

subsection \<open>A candidate of length zero\<close>



subsection \<open>The price through the edit form\<close>

text \<open>
  Claim C10, as amended. Let the stored price of the appointment \<open>a\<close> be an integer of
  absolute value at most \<open>2^50\<close>, and let the submitted price be the value that
  \<open>handleOpenModal\<close> loaded into the form, the double nearest to a hundredth of the
  stored price. Then \<open>appointmentData\<close> computes the stored price again, and a submit
  that passes the conflict search and the three lookups calls \<open>updateAppointment\<close> with
  that price under the appointment's id.
\<close>

theorem price_round_trip:
  assumes "\<bar>price a\<bar> \<le> 2 ^ 50"
    and "Some (price data) = price (form (handleOpenModal (Some a) slot now p))"
  shows "price data = nearest_double (real_of_int (price a) / 100)
       \<and> price (appointmentData data c r s) = price a
       \<and> (user q = Some uid \<and> editingAppointment q = Some a
            \<and> conflictingAppointment (Some a) (appointments q) data = None
            \<and> find (\<lambda>x. ClientType.id x = client_id data) (clients q) = Some c
            \<and> find (\<lambda>x. ProfessionalType.id x = professional_id data) (professionals q) = Some r
            \<and> find (\<lambda>x. ServiceType.id x = service_id data) (services q) = Some s
          \<longrightarrow> store_calls (onSubmit resolves data q)
                = store_calls q @ [UpdateAppointment
                    ((appointmentData data c r s)\<lparr>AppointmentType.id := AppointmentType.id a\<rparr>)])"
proof -
  have 1: "price data = nearest_double (real_of_int (price a) / 100)"
    using assms(2) by (simp add: handleOpenModal_def)
  have 2: "price (appointmentData data c r s) = price a"
    using cents_round_trip [OF assms(1)] by (simp add: appointmentData_def 1)
  have 3: "store_calls (onSubmit resolves data q)
                = store_calls q @ [UpdateAppointment
                    ((appointmentData data c r s)\<lparr>AppointmentType.id := AppointmentType.id a\<rparr>)]"
    if "user q = Some uid" "editingAppointment q = Some a"
      "conflictingAppointment (Some a) (appointments q) data = None"
      "find (\<lambda>x. ClientType.id x = client_id data) (clients q) = Some c"
      "find (\<lambda>x. ProfessionalType.id x = professional_id data) (professionals q) = Some r"
      "find (\<lambda>x. ServiceType.id x = service_id data) (services q) = Some s"
    using that
    by (simp add: onSubmit_def showSuccess_def showError_def handleCloseModal_def Let_def)
  show ?thesis using 1 2 3 by blast
qed

theorem price_round_trip_witness:
  "\<bar>price booked\<bar> \<le> 2 ^ 50
   \<and> Some (price (candidate 1 36000000 37800000))
       = price (form (handleOpenModal (Some booked) None 0 salon))
   \<and> price (appointmentData (candidate 1 36000000 37800000) ana bia corte) = 4500
   \<and> store_calls (onSubmit True (candidate 1 36000000 37800000)
        (salon\<lparr>editingAppointment := Some booked\<rparr>))
      = [UpdateAppointment
           ((appointmentData (candidate 1 36000000 37800000) ana bia corte)
              \<lparr>AppointmentType.id := Some 7\<rparr>)]"
proof -
  have d45: "nearest_double 45 = 45"
    using nearest_double_of_int [of 45] by simp
  have h1: "\<bar>price booked\<bar> \<le> 2 ^ 50" by (simp add: booked_def)
  have h2: "Some (price (candidate 1 36000000 37800000))
       = price (form (handleOpenModal (Some booked) None 0 salon))"
    by (simp add: handleOpenModal_def candidate_def booked_def d45)
  let ?q = "salon\<lparr>editingAppointment := Some booked\<rparr>"
  have h3: "user ?q = Some ''u1'' \<and> editingAppointment ?q = Some booked
      \<and> conflictingAppointment (Some booked) (appointments ?q) (candidate 1 36000000 37800000) = None
      \<and> find (\<lambda>x. ClientType.id x = client_id (candidate 1 36000000 37800000)) (clients ?q) = Some ana
      \<and> find (\<lambda>x. ProfessionalType.id x = professional_id (candidate 1 36000000 37800000)) (professionals ?q) = Some bia
      \<and> find (\<lambda>x. ServiceType.id x = service_id (candidate 1 36000000 37800000)) (services ?q) = Some corte"
    by (simp add: salon_def candidate_def conflictingAppointment_def conflictTest_def
        isEdited_def ana_def bia_def corte_def)
  have h4: "store_calls salon = []" by (simp add: salon_def)
  show ?thesis
    using h1 h2 h3 price_round_trip [OF h1 h2, of ana bia corte ?q "''u1''" True]
    by (simp add: booked_def h4)
qed

text \<open>
  Two ways in which an edit without input changes the stored price. The appointment
  \<open>booked\<close> was stored at 45.00 and its service costs 50.00: opening the form runs the
  effect, which puts the service's 50.00 into the price field, and the submit stores
  5000. And for the stored price 3983374304488813 the loaded value is
  5098719109745681 / 128; times 100 it lies between two doubles and rounds to
  3983374304488813.5, which \<open>Math.round\<close> takes up to 3983374304488814.
\<close>

theorem untouched_edit_changes_price:
  "store_calls (untouched_edit required_numbers True 0 booked salon)
     = [UpdateAppointment (booked\<lparr>price := 5000\<rparr>)]
   \<and> price (booked\<lparr>price := 5000\<rparr>) \<noteq> price booked
   \<and> price (form (handleOpenModal (Some (booked\<lparr>price := 3983374304488813\<rparr>)) None 0 salon))
     = Some (5098719109745681 / 128)
   \<and> price (appointmentData ((candidate 1 36000000 37800000)\<lparr>price := 5098719109745681 / 128\<rparr>)
        ana bia corte) = 3983374304488814"
proof -
  have d50: "nearest_double 50 = 50" and d5000: "nearest_double 5000 = 5000"
    using nearest_double_of_int [of 50] nearest_double_of_int [of 5000] by simp_all
  have 1: "store_calls (untouched_edit required_numbers True 0 booked salon)
     = [UpdateAppointment (booked\<lparr>price := 5000\<rparr>)]"
    by (simp add: untouched_edit_def handleSubmit_def required_numbers_def serviceEffect_def
        handleOpenModal_def onSubmit_def conflictingAppointment_def conflictTest_def
        isEdited_def appointmentData_def Math_round_def derive_end_time_def
        showSuccess_def handleCloseModal_def d50 d5000
        salon_def booked_def corte_def ana_def bia_def Let_def
        utc_def offset_at_def wall_clock_def instant_of_def year_0000_def year_10000_def)
  have 2: "price (booked\<lparr>price := 5000\<rparr>) \<noteq> price booked"
    by (simp add: booked_def)
  have l: "nearest_double (3983374304488813 / 100) = 5098719109745681 / 128"
    using nearest_double_eval [of "3983374304488813 / 100" 45]
    by (simp add: round_half_even_def power_int_minus_divide Let_def)
  have 3: "price (form (handleOpenModal (Some (booked\<lparr>price := 3983374304488813\<rparr>)) None 0 salon))
     = Some (5098719109745681 / 128)"
    by (simp add: handleOpenModal_def l)
  have s: "nearest_double (127467977743642025 / 32) = 7966748608977627 / 2"
    using nearest_double_eval [of "127467977743642025 / 32" 51]
    by (simp add: round_half_even_def power_int_minus_divide Let_def)
  have 4: "price (appointmentData ((candidate 1 36000000 37800000)\<lparr>price := 5098719109745681 / 128\<rparr>)
        ana bia corte) = 3983374304488814"
    by (simp add: appointmentData_def s Math_round_def)
  show ?thesis using 1 2 3 4 by blast
qed

end
